theory Spec2Isabelle
  imports Complex_Main "HOL-Library.Monad_Syntax"
begin

section \<open>Envelope library of c3 (\<open>c3/libraries/envelopes.py\<close>)\<close>

text \<open>
  The module is a registry of pulse envelopes: functions of a time vector \<open>t\<close> and a
  parameter dictionary \<open>params\<close>. The embedding below follows the Python text function by
  function. Three conventions fix how the numeric backend is read:

  \<^item> A \<open>float64\<close> is a real number and \<open>tf.exp\<close>, \<open>tf.sin\<close>, \<open>tf.cos\<close>, \<open>np.sqrt\<close>,
    \<open>np.exp\<close>, \<open>tf.math.erf\<close> and \<open>tf.sqrt\<close> on a float tensor are the mathematical
    functions. Rounding, overflow and underflow are not part of the model: a property
    that holds or fails with them is not stated here.
  \<^item> Floating-point division by zero does not raise in NumPy or TensorFlow; it yields an
    infinity or a NaN and the computation goes on. The reals have no such values, so an
    entry of a result vector is a \<open>real option\<close>: \<open>Some r\<close> is the value of the formula
    in exact arithmetic, \<open>None\<close> says that the source divided by zero on the way to this
    entry, and the model does not follow the IEEE value any further.
  \<^item> \<open>tf.sqrt\<close> is defined for floating and complex dtypes only. A Python \<open>int\<close> handed
    to it becomes an \<open>int32\<close> tensor, and the call raises.
\<close>

subsection \<open>Numbers\<close>

definition fdiv :: "real \<Rightarrow> real \<Rightarrow> real option" where
  "fdiv x y = (if y = 0 then None else Some (x / y))"

text \<open>
  The Gauss error function behind \<open>tf.math.erf\<close>, given by its Maclaurin series
  \<open>erf x = 2/\<surd>\<pi> * (\<Sum>k. (-1)^k * x^(2k+1) / (k! * (2k+1)))\<close>.
\<close>

definition erf_coeffs :: "nat \<Rightarrow> real" where
  "erf_coeffs n =
     (if odd n then 2 / sqrt pi * (- 1) ^ (n div 2) / (real n * fact (n div 2)) else 0)"

definition erf :: "real \<Rightarrow> real" where
  "erf x = (\<Sum>n. erf_coeffs n * x ^ n)"

subsection \<open>Python values, parameter sets, results\<close>

text \<open>
  A value held by a quantity is a rank-0 or a rank-1 array of floats (the docstrings say
  \<open>float\<close> for \<open>t_final\<close>, \<open>sigma\<close>, \<open>t_up\<close>, \<open>t_down\<close>, \<open>risefall\<close> and \<open>list\<close> for
  \<open>amps\<close>, \<open>freqs\<close>).
\<close>

datatype tensor = Scalar real | Array "real list"

text \<open>
  Modelled from the spec: the class \<open>Quantity\<close> of \<open>c3.c3objs\<close> (imported as \<open>Qty\<close>) is
  not among the sources. The spec describes it as an object that stores a value with a
  unit and min/max bounds and hands the value back through \<open>get_value\<close>; the code also
  reads its attributes \<open>unit\<close> and \<open>shape\<close>.
\<close>

record quantity =
  q_value :: tensor
  q_min :: tensor
  q_max :: tensor
  q_unit :: string

text \<open>What a parameter dictionary holds: a plain Python float or a \<open>Quantity\<close> object.\<close>

datatype pyobj = PyFloat real | PyQty quantity

type_synonym params = "string \<rightharpoonup> pyobj"

definition Qty :: "tensor \<Rightarrow> tensor \<Rightarrow> tensor \<Rightarrow> string \<Rightarrow> pyobj" where
  "Qty v lo hi u = PyQty \<lparr>q_value = v, q_min = lo, q_max = hi, q_unit = u\<rparr>"

text \<open>
  Exceptions. \<open>OutOfModel\<close> is not a Python exception: it marks an input that leaves the
  parameter contract of the docstrings (an array where a float is documented, a
  \<open>Quantity\<close> where \<open>flattop_variant\<close> does float arithmetic). The source hands such
  inputs to the backend's broadcasting or to operators of the absent \<open>Quantity\<close> class,
  which the embedding does not cover.
\<close>

datatype error =
    KeyError string
  | AttributeError
  | IndexError
  | InvalidArgumentError
  | OutOfModel

text \<open>
  What an envelope returns: a vector aligned with \<open>t\<close>, the Python float of \<open>rect\<close>, or
  the parameter dictionary itself (\<open>pwc\<close>).
\<close>

datatype result =
    Vector "real option list"
  | Const real
  | Params "string \<Rightarrow> pyobj option"

definition ebind :: "error + 'a \<Rightarrow> ('a \<Rightarrow> error + 'b) \<Rightarrow> error + 'b" where
  "ebind m f = (case m of Inl e \<Rightarrow> Inl e | Inr x \<Rightarrow> f x)"

text \<open>\<open>d[k]\<close> on a dictionary.\<close>

definition dict_getitem :: "(string \<rightharpoonup> 'v) \<Rightarrow> string \<Rightarrow> error + 'v" where
  "dict_getitem d k = (case d k of None \<Rightarrow> Inl (KeyError k) | Some v \<Rightarrow> Inr v)"

text \<open>\<open>obj.get_value()\<close>, \<open>obj.unit\<close> and \<open>obj.shape[0]\<close>: a float has none of them.\<close>

definition get_value :: "pyobj \<Rightarrow> error + tensor" where
  "get_value obj = (case obj of PyFloat x \<Rightarrow> Inl AttributeError | PyQty q \<Rightarrow> Inr (q_value q))"

definition get_unit :: "pyobj \<Rightarrow> error + string" where
  "get_unit obj = (case obj of PyFloat x \<Rightarrow> Inl AttributeError | PyQty q \<Rightarrow> Inr (q_unit q))"

definition shape0 :: "pyobj \<Rightarrow> error + nat" where
  "shape0 obj =
     (case obj of
        PyFloat x \<Rightarrow> Inl AttributeError
      | PyQty q \<Rightarrow> (case q_value q of Scalar x \<Rightarrow> Inl IndexError | Array xs \<Rightarrow> Inr (length xs)))"

text \<open>\<open>tf.cast(v, dtype=tf.float64)\<close> leaves the numbers as they are.\<close>

definition tf_cast :: "tensor \<Rightarrow> tensor" where
  "tf_cast v = v"

text \<open>A tensor used where the formulas need one float.\<close>

definition scalar :: "tensor \<Rightarrow> error + real" where
  "scalar v = (case v of Scalar x \<Rightarrow> Inr x | Array xs \<Rightarrow> Inl OutOfModel)"

text \<open>\<open>v / c\<close> for a numeric literal \<open>c\<close>, elementwise.\<close>

definition tdiv :: "tensor \<Rightarrow> real \<Rightarrow> tensor" where
  "tdiv v c = (case v of Scalar x \<Rightarrow> Scalar (x / c) | Array xs \<Rightarrow> Array (map (\<lambda>x. x / c) xs))"

text \<open>\<open>tf.cast(params[k].get_value(), dtype=tf.float64)\<close>, then used as a float.\<close>

definition float_param :: "params \<Rightarrow> string \<Rightarrow> error + real" where
  "float_param params k =
     ebind (dict_getitem params k) (\<lambda>obj.
     ebind (get_value obj) (\<lambda>v. scalar (tf_cast v)))"

text \<open>\<open>tf.reshape(v, [n, 1])\<close>: the column of the \<open>n\<close> numbers of \<open>v\<close>.\<close>

definition tf_reshape_col :: "tensor \<Rightarrow> nat \<Rightarrow> error + real list" where
  "tf_reshape_col v n =
     (case v of
        Scalar x \<Rightarrow> if n = 1 then Inr [x] else Inl InvalidArgumentError
      | Array xs \<Rightarrow> if length xs = n then Inr xs else Inl InvalidArgumentError)"

text \<open>
  \<open>amps * f(freqs * t)\<close> multiplies a column of shape \<open>[n, 1]\<close> with a matrix of shape
  \<open>[m, N]\<close>: the rows are paired when \<open>n = m\<close>, a single row is repeated, and any other
  pair of shapes is rejected by the backend.
\<close>

definition broadcast_rows :: "real list \<Rightarrow> real list \<Rightarrow> error + (real \<times> real) list" where
  "broadcast_rows amps freqs =
     (if length amps = length freqs then Inr (zip amps freqs)
      else (case amps of
              [a] \<Rightarrow> Inr (map (\<lambda>f. (a, f)) freqs)
            | _ \<Rightarrow> (case freqs of
                      [f] \<Rightarrow> Inr (map (\<lambda>a. (a, f)) amps)
                    | _ \<Rightarrow> Inl InvalidArgumentError)))"

subsection \<open>The envelopes\<close>

definition no_drive :: "real list \<Rightarrow> params \<Rightarrow> error + result" where
  "no_drive t params = Inr (Vector (map (\<lambda>e. Some 0) t))"

definition pwc :: "real list \<Rightarrow> params \<Rightarrow> error + result" where
  "pwc t params = Inr (Params params)"

text \<open>The columns \<open>amps\<close> and \<open>freqs\<close> as both Fourier envelopes read them.\<close>

definition column_param :: "params \<Rightarrow> string \<Rightarrow> error + real list" where
  "column_param params k =
     ebind (dict_getitem params k) (\<lambda>obj.
     ebind (get_value obj) (\<lambda>v.
     ebind (shape0 obj) (\<lambda>n. tf_reshape_col (tf_cast v) n)))"

definition fourier_sin :: "real list \<Rightarrow> params \<Rightarrow> error + result" where
  "fourier_sin t params =
     ebind (column_param params ''amps'') (\<lambda>amps.
     ebind (column_param params ''freqs'') (\<lambda>freqs.
     ebind (broadcast_rows amps freqs) (\<lambda>rows.
       Inr (Vector (map (\<lambda>e. Some (sum_list (map (\<lambda>(a, f). a * sin (f * e)) rows))) t)))))"

definition fourier_cos :: "real list \<Rightarrow> params \<Rightarrow> error + result" where
  "fourier_cos t params =
     ebind (column_param params ''amps'') (\<lambda>amps.
     ebind (column_param params ''freqs'') (\<lambda>freqs.
     ebind (broadcast_rows amps freqs) (\<lambda>rows.
       Inr (Vector (map (\<lambda>e. Some (sum_list (map (\<lambda>(a, f). a * cos (f * e)) rows))) t)))))"

definition rect :: "real list \<Rightarrow> params \<Rightarrow> error + result" where
  "rect t params = Inr (Const 1.0)"

definition flattop_risefall :: "real list \<Rightarrow> params \<Rightarrow> error + result" where
  "flattop_risefall t params =
     ebind (float_param params ''t_up'') (\<lambda>t_up.
     ebind (float_param params ''t_down'') (\<lambda>t_down.
     ebind (float_param params ''risefall'') (\<lambda>risefall.
       Inr (Vector (map (\<lambda>e. do {
              up \<leftarrow> fdiv (e - t_up) risefall;
              down \<leftarrow> fdiv (- e + t_down) risefall;
              Some ((1 + erf up) / 2 * (1 + erf down) / 2) }) t)))))"

text \<open>
  \<open>flattop\<close> stores the bare float \<open>1e-9\<close> under \<open>risefall\<close> in the caller's dictionary and
  calls \<open>flattop_risefall\<close> on it. The dictionary after the call is the second component.
\<close>

definition flattop :: "real list \<Rightarrow> params \<Rightarrow> (error + result) \<times> params" where
  "flattop t params =
     (let params' = params(''risefall'' \<mapsto> PyFloat (1 / 10 ^ 9))
      in (flattop_risefall t params', params'))"

definition gaussian_sigma :: "real list \<Rightarrow> params \<Rightarrow> error + result" where
  "gaussian_sigma t params =
     ebind (float_param params ''t_final'') (\<lambda>t_final.
     ebind (float_param params ''sigma'') (\<lambda>sigma.
       let gauss = map (\<lambda>e. do {
                     q \<leftarrow> fdiv (- ((e - t_final / 2) ^ 2)) (2 * sigma ^ 2);
                     Some (exp q) }) t;
           norm = do {
                     a \<leftarrow> fdiv t_final (sqrt 8 * sigma);
                     b \<leftarrow> fdiv (- (t_final ^ 2)) (8 * sigma ^ 2);
                     Some (sqrt (2 * pi * sigma ^ 2) * erf a - t_final * exp b) };
           offset = do {
                     b \<leftarrow> fdiv (- (t_final ^ 2)) (8 * sigma ^ 2);
                     Some (exp b) }
       in Inr (Vector (map (\<lambda>g. do {
                 g' \<leftarrow> g; off \<leftarrow> offset; n \<leftarrow> norm;
                 fdiv (g' - off) n }) gauss))))"

text \<open>
  The \<open>sigma\<close> that \<open>gaussian\<close> and \<open>drag\<close> build:
  \<open>Qty(value=v/4, min=v/8, max=v/2, unit=params['t_final'].unit)\<close> with
  \<open>v = params['t_final'].get_value()\<close>.
\<close>

definition derived_sigma :: "params \<Rightarrow> error + pyobj" where
  "derived_sigma params =
     ebind (dict_getitem params ''t_final'') (\<lambda>obj.
     ebind (get_value obj) (\<lambda>v.
     ebind (get_unit obj) (\<lambda>u.
       Inr (Qty (tdiv v 4) (tdiv v 8) (tdiv v 2) u))))"

definition gaussian :: "real list \<Rightarrow> params \<Rightarrow> (error + result) \<times> params" where
  "gaussian t params =
     (case derived_sigma params of
        Inl e \<Rightarrow> (Inl e, params)
      | Inr s \<Rightarrow> (let params' = params(''sigma'' \<mapsto> s)
                 in (gaussian_sigma t params', params')))"

definition gaussian_nonorm :: "real list \<Rightarrow> params \<Rightarrow> error + result" where
  "gaussian_nonorm t params =
     ebind (float_param params ''t_final'') (\<lambda>t_final.
     ebind (dict_getitem params ''sigma'') (\<lambda>obj.
     ebind (get_value obj) (\<lambda>v.
     ebind (scalar v) (\<lambda>sigma.
       let gauss = map (\<lambda>e. do {
                     q \<leftarrow> fdiv (- ((e - t_final / 2) ^ 2)) (2 * sigma ^ 2);
                     Some (exp q) }) t
       in Inr (Vector gauss)))))"

definition gaussian_der_nonorm :: "real list \<Rightarrow> params \<Rightarrow> error + result" where
  "gaussian_der_nonorm t params =
     ebind (float_param params ''t_final'') (\<lambda>t_final.
     ebind (float_param params ''sigma'') (\<lambda>sigma.
       let gauss_der = map (\<lambda>e. do {
                     q \<leftarrow> fdiv (- ((e - t_final / 2) ^ 2)) (2 * sigma ^ 2);
                     fdiv (exp q * (e - t_final / 2)) (sigma ^ 2) }) t
       in Inr (Vector gauss_der)))"

text \<open>
  \<open>tf.sqrt(n)\<close> for a Python integer literal \<open>n\<close>: the argument is converted to an
  \<open>int32\<close> tensor, for which the operation is not defined, and the backend raises
  (\<open>InvalidArgumentError\<close> in eager execution).
\<close>

definition tf_sqrt_int :: "int \<Rightarrow> error + real" where
  "tf_sqrt_int n = Inl InvalidArgumentError"

text \<open>
  In \<open>gaussian_der\<close> the source writes \<open>tf.sqrt(8)\<close> where the other envelopes write
  \<open>np.sqrt(8)\<close>. Python evaluates \<open>gauss_der\<close> first, then, for \<open>norm\<close>,
  \<open>tf.sqrt(2 * np.pi * sigma ** 2)\<close> and the argument of \<open>erf\<close>, where \<open>tf.sqrt(8)\<close>
  stands.
\<close>

definition gaussian_der :: "real list \<Rightarrow> params \<Rightarrow> error + result" where
  "gaussian_der t params =
     ebind (float_param params ''t_final'') (\<lambda>t_final.
     ebind (float_param params ''sigma'') (\<lambda>sigma.
       let gauss_der = map (\<lambda>e. do {
                     q \<leftarrow> fdiv (- ((e - t_final / 2) ^ 2)) (2 * sigma ^ 2);
                     fdiv (exp q * (e - t_final / 2)) (sigma ^ 2) }) t
       in ebind (tf_sqrt_int 8) (\<lambda>sqrt8.
            let norm = do {
                     a \<leftarrow> fdiv t_final (sqrt8 * sigma);
                     b \<leftarrow> fdiv (- (t_final ^ 2)) (8 * sigma ^ 2);
                     Some (sqrt (2 * pi * sigma ^ 2) * erf a - t_final * exp b) }
            in Inr (Vector (map (\<lambda>g. do { g' \<leftarrow> g; n \<leftarrow> norm; fdiv g' n }) gauss_der)))))"

definition drag_sigma :: "real list \<Rightarrow> params \<Rightarrow> error + result" where
  "drag_sigma t params =
     ebind (float_param params ''t_final'') (\<lambda>t_final.
     ebind (float_param params ''sigma'') (\<lambda>sigma.
       let drag = map (\<lambda>e. do {
                     q \<leftarrow> fdiv (- ((e - t_final / 2) ^ 2)) (2 * sigma ^ 2);
                     Some (exp q) }) t;
           norm = do {
                     a \<leftarrow> fdiv t_final (sqrt 8 * sigma);
                     b \<leftarrow> fdiv (- (t_final ^ 2)) (8 * sigma ^ 2);
                     Some (sqrt (2 * pi * sigma ^ 2) * erf a - t_final * exp b) };
           offset = do {
                     b \<leftarrow> fdiv (- (t_final ^ 2)) (8 * sigma ^ 2);
                     Some (exp b) }
       in Inr (Vector (map (\<lambda>d. do {
                 d' \<leftarrow> d; off \<leftarrow> offset; n \<leftarrow> norm;
                 fdiv ((d' - off) ^ 2) n }) drag))))"

definition drag :: "real list \<Rightarrow> params \<Rightarrow> (error + result) \<times> params" where
  "drag t params =
     (case derived_sigma params of
        Inl e \<Rightarrow> (Inl e, params)
      | Inr s \<Rightarrow> (let params' = params(''sigma'' \<mapsto> s)
                 in (drag_sigma t params', params')))"

definition drag_der :: "real list \<Rightarrow> params \<Rightarrow> error + result" where
  "drag_der t params =
     ebind (float_param params ''t_final'') (\<lambda>t_final.
     ebind (float_param params ''sigma'') (\<lambda>sigma.
       let norm = do {
                     a \<leftarrow> fdiv t_final (sqrt 8 * sigma);
                     b \<leftarrow> fdiv (- (t_final ^ 2)) (8 * sigma ^ 2);
                     Some (sqrt (2 * pi * sigma ^ 2) * erf a - t_final * exp b) };
           offset = do {
                     b \<leftarrow> fdiv (- (t_final ^ 2)) (8 * sigma ^ 2);
                     Some (exp b) };
           der = map (\<lambda>e. do {
                     q \<leftarrow> fdiv (- ((e - t_final / 2) ^ 2)) (2 * sigma ^ 2);
                     off \<leftarrow> offset;
                     q' \<leftarrow> fdiv (- ((e - t_final / 2) ^ 2)) (2 * sigma ^ 2);
                     x \<leftarrow> fdiv (- 2 * (exp q - off) * exp q' * (e - t_final / 2)) (sigma ^ 2);
                     n \<leftarrow> norm;
                     fdiv x n }) t
       in Inr (Vector der)))"

text \<open>
  \<open>flattop_variant\<close> reads plain floats and fills \<open>value = np.ones(len(t))\<close> entry by
  entry. \<open>flattop_variant_loop\<close> is the \<open>for i, e in enumerate(t)\<close> loop, \<open>value\<close>
  threaded through it.
\<close>

definition py_float :: "pyobj \<Rightarrow> error + real" where
  "py_float obj = (case obj of PyFloat x \<Rightarrow> Inr x | PyQty q \<Rightarrow> Inl OutOfModel)"

fun flattop_variant_loop ::
  "real \<Rightarrow> real \<Rightarrow> real \<Rightarrow> real \<Rightarrow> (nat \<times> real) list \<Rightarrow> real option list \<Rightarrow> real option list"
where
  "flattop_variant_loop t_up t_down ramp sigma [] val = val"
| "flattop_variant_loop t_up t_down ramp sigma ((i, e) # rest) val =
     flattop_variant_loop t_up t_down ramp sigma rest
       (if t_up \<le> e \<and> e \<le> t_up + ramp then
          val[i := map_option exp (fdiv (- ((e - t_up - ramp) ^ 2)) (2 * sigma ^ 2))]
        else if t_up + ramp < e \<and> e < t_down - ramp then
          val[i := Some 1]
        else if t_down \<ge> e \<and> e \<ge> t_down - ramp then
          val[i := map_option exp (fdiv (- ((e - t_down + ramp) ^ 2)) (2 * sigma ^ 2))]
        else
          val[i := Some 0])"

definition flattop_variant :: "real list \<Rightarrow> params \<Rightarrow> error + result" where
  "flattop_variant t params =
     ebind (dict_getitem params ''t_up'') (\<lambda>o_up.
     ebind (dict_getitem params ''t_down'') (\<lambda>o_down.
     ebind (dict_getitem params ''ramp'') (\<lambda>o_ramp.
     ebind (py_float o_up) (\<lambda>t_up.
     ebind (py_float o_down) (\<lambda>t_down.
     ebind (py_float o_ramp) (\<lambda>ramp0.
       let val = replicate (length t) (Some 1);
           ramp = (if ramp0 > (t_down - t_up) / 2 then (t_down - t_up) / 2 else ramp0);
           sigma = sqrt 2 * ramp * 0.2
       in Inr (Vector (flattop_variant_loop t_up t_down ramp sigma (enumerate 0 t) val))))))))"

subsection \<open>The registry\<close>

text \<open>
  A function object: its \<open>__name__\<close> and what calling it does to the caller's dictionary.
  Thirteen of the sixteen envelopes never assign to \<open>params\<close>; \<open>unchanged\<close> gives them
  the calling convention of the three that do.
\<close>

type_synonym envelope = "real list \<Rightarrow> params \<Rightarrow> (error + result) \<times> params"

record pyfunc =
  fn_name :: string
  fn_call :: envelope

definition unchanged :: "(real list \<Rightarrow> params \<Rightarrow> error + result) \<Rightarrow> envelope" where
  "unchanged f t params = (f t params, params)"

text \<open>\<open>env_reg_deco\<close> stores \<open>func\<close> under \<open>str(func.__name__)\<close> and returns it.\<close>

definition env_reg_deco ::
  "pyfunc \<Rightarrow> (string \<rightharpoonup> pyfunc) \<Rightarrow> pyfunc \<times> (string \<rightharpoonup> pyfunc)"
where
  "env_reg_deco func envelopes = (func, envelopes(fn_name func \<mapsto> func))"

text \<open>The decorated definitions of the module, in the order of the file.\<close>

definition defined_functions :: "pyfunc list" where
  "defined_functions =
     [\<lparr>fn_name = ''no_drive'', fn_call = unchanged no_drive\<rparr>,
      \<lparr>fn_name = ''pwc'', fn_call = unchanged pwc\<rparr>,
      \<lparr>fn_name = ''fourier_sin'', fn_call = unchanged fourier_sin\<rparr>,
      \<lparr>fn_name = ''fourier_cos'', fn_call = unchanged fourier_cos\<rparr>,
      \<lparr>fn_name = ''rect'', fn_call = unchanged rect\<rparr>,
      \<lparr>fn_name = ''flattop_risefall'', fn_call = unchanged flattop_risefall\<rparr>,
      \<lparr>fn_name = ''flattop'', fn_call = flattop\<rparr>,
      \<lparr>fn_name = ''gaussian_sigma'', fn_call = unchanged gaussian_sigma\<rparr>,
      \<lparr>fn_name = ''gaussian'', fn_call = gaussian\<rparr>,
      \<lparr>fn_name = ''gaussian_nonorm'', fn_call = unchanged gaussian_nonorm\<rparr>,
      \<lparr>fn_name = ''gaussian_der_nonorm'', fn_call = unchanged gaussian_der_nonorm\<rparr>,
      \<lparr>fn_name = ''gaussian_der'', fn_call = unchanged gaussian_der\<rparr>,
      \<lparr>fn_name = ''drag_sigma'', fn_call = unchanged drag_sigma\<rparr>,
      \<lparr>fn_name = ''drag'', fn_call = drag\<rparr>,
      \<lparr>fn_name = ''drag_der'', fn_call = unchanged drag_der\<rparr>,
      \<lparr>fn_name = ''flattop_variant'', fn_call = unchanged flattop_variant\<rparr>]"

text \<open>\<open>envelopes = dict()\<close>, then one \<open>env_reg_deco\<close> per definition.\<close>

definition envelopes :: "string \<rightharpoonup> pyfunc" where
  "envelopes = fold (\<lambda>func reg. snd (env_reg_deco func reg)) defined_functions Map.empty"

subsection \<open>Concrete parameter sets used below\<close>

definition flattop_example :: params where
  "flattop_example =
     [''t_up'' \<mapsto> Qty (Scalar 1) (Scalar 0) (Scalar 2) ''s'',
      ''t_down'' \<mapsto> Qty (Scalar 2) (Scalar 0) (Scalar 3) ''s'']"

definition fourier_example :: "real list \<Rightarrow> params" where
  "fourier_example freqs =
     [''amps'' \<mapsto> Qty (Array [1]) (Array [0]) (Array [2]) ''V'',
      ''freqs'' \<mapsto> Qty (Array freqs) (Array [0]) (Array [2]) ''Hz'']"

definition gauss_example :: "real \<Rightarrow> real \<Rightarrow> params" where
  "gauss_example t_final sigma =
     [''t_final'' \<mapsto> Qty (Scalar t_final) (Scalar 0) (Scalar 100) ''s'',
      ''sigma'' \<mapsto> Qty (Scalar sigma) (Scalar (- 100)) (Scalar 100) ''s'']"

definition variant_example :: params where
  "variant_example = [''t_up'' \<mapsto> PyFloat 1, ''t_down'' \<mapsto> PyFloat 3, ''ramp'' \<mapsto> PyFloat 0]"

subsection \<open>The body of the loop of \<open>flattop_variant\<close>\<close>

text \<open>One pass of the body: the value stored for the sample \<open>e\<close>.\<close>

definition flattop_variant_entry :: "real \<Rightarrow> real \<Rightarrow> real \<Rightarrow> real \<Rightarrow> real \<Rightarrow> real option" where
  "flattop_variant_entry t_up t_down ramp sigma e =
     (if t_up \<le> e \<and> e \<le> t_up + ramp then
        map_option exp (fdiv (- ((e - t_up - ramp) ^ 2)) (2 * sigma ^ 2))
      else if t_up + ramp < e \<and> e < t_down - ramp then Some 1
      else if t_down \<ge> e \<and> e \<ge> t_down - ramp then
        map_option exp (fdiv (- ((e - t_down + ramp) ^ 2)) (2 * sigma ^ 2))
      else Some 0)"

section \<open>The error function\<close>

text \<open>
  The series of \<open>erf\<close> converges everywhere and may be differentiated term by term: the
  derivative is \<open>2/\<surd>\<pi> * exp (- x\<^sup>2)\<close>, \<open>erf\<close> vanishes at \<open>0\<close> and is odd. So the definition
  above is the error function.
\<close>

lemma exp_neg_sq_sums:
  fixes x :: real
  shows "(\<lambda>n. (if even n then (- 1) ^ (n div 2) / fact (n div 2) else 0) * x ^ n) sums exp (- (x\<^sup>2))"
proof -
  let ?f = "\<lambda>n. (if even n then (- 1) ^ (n div 2) / fact (n div 2) else 0) * x ^ n"
  have sm: "strict_mono (\<lambda>k::nat. 2 * k)"
    by (simp add: strict_mono_def)
  have zero: "?f n = 0" if "n \<notin> range (\<lambda>k::nat. 2 * k)" for n
  proof -
    have "odd n" using that by (auto elim!: evenE)
    then show ?thesis by simp
  qed
  have "(\<lambda>k. (- (x\<^sup>2)) ^ k /\<^sub>R fact k) sums exp (- (x\<^sup>2))"
    by (rule exp_converges)
  moreover have "(\<lambda>k. (- (x\<^sup>2)) ^ k /\<^sub>R fact k) = (\<lambda>k. ?f (2 * k))"
  proof (rule ext)
    fix k :: nat
    have "(- (x\<^sup>2)) ^ k = (- 1) ^ k * x ^ (2 * k)"
      by (simp add: power_minus [of "x\<^sup>2"] power_mult)
    then show "(- (x\<^sup>2)) ^ k /\<^sub>R fact k = ?f (2 * k)"
      by (simp add: divide_inverse mult_ac del: power_mult_numeral)
  qed
  ultimately have "(\<lambda>k. ?f (2 * k)) sums exp (- (x\<^sup>2))"
    by simp
  then show ?thesis
    using sums_mono_reindex [of "\<lambda>k. 2 * k" ?f] sm zero by blast
qed

lemma diffs_erf_coeffs:
  "diffs erf_coeffs n = 2 / sqrt pi * (if even n then (- 1) ^ (n div 2) / fact (n div 2) else 0)"
proof (cases "even n")
  case True
  then have "Suc n div 2 = n div 2" by (auto elim!: evenE)
  with True show ?thesis
    by (simp add: diffs_def erf_coeffs_def del: of_nat_Suc)
next
  case False
  then show ?thesis
    by (simp add: diffs_def erf_coeffs_def del: of_nat_Suc)
qed

lemma summable_erf: "summable (\<lambda>n. erf_coeffs n * y ^ n)"
proof -
  let ?f = "\<lambda>n. erf_coeffs n * y ^ n"
  have sm: "strict_mono (\<lambda>k::nat. 2 * k + 1)"
    by (simp add: strict_mono_def)
  have zero: "?f n = 0" if "n \<notin> range (\<lambda>k::nat. 2 * k + 1)" for n
  proof -
    have "even n"
    proof (rule ccontr)
      assume "odd n"
      then obtain k where "n = 2 * k + 1" by (rule oddE)
      then have "n \<in> range (\<lambda>k::nat. 2 * k + 1)" by blast
      with that show False by contradiction
    qed
    then show ?thesis by (simp add: erf_coeffs_def)
  qed
  have bound: "norm (?f (2 * k + 1)) \<le> (2 / sqrt pi * \<bar>y\<bar>) * ((y\<^sup>2) ^ k /\<^sub>R fact k)" for k
  proof -
    have pw: "\<bar>y\<bar> ^ (2 * k + 1) = \<bar>y\<bar> * (y\<^sup>2) ^ k"
    proof -
      have "\<bar>y\<bar> ^ (2 * k) = (\<bar>y\<bar>\<^sup>2) ^ k" by (rule power_mult)
      then show ?thesis by simp
    qed
    have dv: "(2 * k + 1) div 2 = k" by simp
    have "norm (?f (2 * k + 1)) = 2 / sqrt pi * \<bar>y\<bar> ^ (2 * k + 1) / (real (2 * k + 1) * fact k)"
      unfolding erf_coeffs_def dv
      by (simp add: abs_mult power_abs del: of_nat_Suc of_nat_add power_Suc)
    also have "\<dots> = (2 / sqrt pi * \<bar>y\<bar>) * ((y\<^sup>2) ^ k / fact k) / real (2 * k + 1)"
      unfolding pw by (simp add: mult_ac del: of_nat_Suc of_nat_add)
    also have "\<dots> \<le> (2 / sqrt pi * \<bar>y\<bar>) * ((y\<^sup>2) ^ k / fact k)"
    proof -
      have "0 \<le> (2 / sqrt pi * \<bar>y\<bar>) * ((y\<^sup>2) ^ k / fact k)" by simp
      moreover have "1 \<le> real (2 * k + 1)" by simp
      ultimately show ?thesis
        by (metis divide_le_eq_1_pos div_by_1 frac_le order_refl zero_less_one)
    qed
    finally show ?thesis by (simp add: divide_inverse mult_ac)
  qed
  have "summable (\<lambda>k. (2 / sqrt pi * \<bar>y\<bar>) * ((y\<^sup>2) ^ k /\<^sub>R fact k))"
    by (intro summable_mult summable_exp_generic)
  then have "summable (\<lambda>k. ?f (2 * k + 1))"
    by (rule summable_comparison_test') (rule bound)
  then show ?thesis
    using summable_mono_reindex [of "\<lambda>k. 2 * k + 1" ?f] sm zero by blast
qed

lemma DERIV_erf: "DERIV erf x :> 2 / sqrt pi * exp (- (x\<^sup>2))"
proof -
  have "((\<lambda>x. \<Sum>n. erf_coeffs n * x ^ n) has_field_derivative (\<Sum>n. diffs erf_coeffs n * x ^ n)) (at x)"
    by (rule termdiffs_strong_converges_everywhere) (rule summable_erf)
  moreover have "(\<Sum>n. diffs erf_coeffs n * x ^ n) = 2 / sqrt pi * exp (- (x\<^sup>2))"
  proof -
    have "(\<lambda>n. 2 / sqrt pi * ((if even n then (- 1) ^ (n div 2) / fact (n div 2) else 0) * x ^ n))
            sums (2 / sqrt pi * exp (- (x\<^sup>2)))"
      by (rule sums_mult) (rule exp_neg_sq_sums)
    then have "(\<lambda>n. diffs erf_coeffs n * x ^ n) sums (2 / sqrt pi * exp (- (x\<^sup>2)))"
      by (simp add: diffs_erf_coeffs mult.assoc)
    then show ?thesis by (rule sums_unique [symmetric])
  qed
  ultimately show ?thesis
    by (simp add: erf_def [abs_def])
qed

lemma erf_0: "erf 0 = 0"
  by (simp add: erf_def erf_coeffs_def)

lemma erf_minus: "erf (- x) = - erf x"
proof -
  have "erf_coeffs n * (- x) ^ n = - (erf_coeffs n * x ^ n)" for n
    by (simp add: erf_coeffs_def)
  then have "erf (- x) = (\<Sum>n. - (erf_coeffs n * x ^ n))"
    by (simp add: erf_def)
  also have "\<dots> = - erf x"
    unfolding erf_def by (rule suminf_minus) (rule summable_erf)
  finally show ?thesis .
qed


section \<open>The registry\<close>

lemma names: "map fn_name defined_functions = [''no_drive'', ''pwc'', ''fourier_sin'', ''fourier_cos'', ''rect'',
  ''flattop_risefall'', ''flattop'', ''gaussian_sigma'', ''gaussian'', ''gaussian_nonorm'', ''gaussian_der_nonorm'',
  ''gaussian_der'', ''drag_sigma'', ''drag'', ''drag_der'', ''flattop_variant'']"
  by (simp add: defined_functions_def)

lemma snd_env_reg_deco:
  "snd (env_reg_deco g reg) n = (if n = fn_name g then Some g else reg n)"
  by (simp add: env_reg_deco_def)

lemma fold_reg_notin:
  "n \<notin> fn_name ` set fs \<Longrightarrow> fold (\<lambda>func reg. snd (env_reg_deco func reg)) fs reg n = reg n"
  by (induction fs arbitrary: reg) (auto simp: snd_env_reg_deco)

lemma fold_reg_in:
  "distinct (map fn_name fs) \<Longrightarrow> f \<in> set fs \<Longrightarrow>
     fold (\<lambda>func reg. snd (env_reg_deco func reg)) fs reg (fn_name f) = Some f"
proof (induction fs arbitrary: reg)
  case Nil
  then show ?case by simp
next
  case (Cons g fs)
  show ?case
  proof (cases "f = g")
    case True
    with Cons.prems have "fn_name g \<notin> fn_name ` set fs" by auto
    then have "fold (\<lambda>func reg. snd (env_reg_deco func reg)) fs (snd (env_reg_deco g reg)) (fn_name g)
                 = snd (env_reg_deco g reg) (fn_name g)"
      by (rule fold_reg_notin)
    moreover have "snd (env_reg_deco g reg) (fn_name g) = Some g"
      by (simp add: snd_env_reg_deco)
    moreover have "fold (\<lambda>func reg. snd (env_reg_deco func reg)) (g # fs) reg
                 = fold (\<lambda>func reg. snd (env_reg_deco func reg)) fs (snd (env_reg_deco g reg))"
      by (simp only: fold_simps comp_apply)
    ultimately show ?thesis unfolding True by (simp only:)
  next
    case False
    with Cons show ?thesis by simp
  qed
qed

lemma fold_reg_dom:
  "fold (\<lambda>func reg. snd (env_reg_deco func reg)) fs reg n = Some f \<Longrightarrow>
     reg n = Some f \<or> (f \<in> set fs \<and> fn_name f = n)"
proof (induction fs arbitrary: reg)
  case Nil
  then show ?case by simp
next
  case (Cons g fs)
  from Cons.prems
  have "fold (\<lambda>func reg. snd (env_reg_deco func reg)) fs (snd (env_reg_deco g reg)) n = Some f"
    by simp
  then have "snd (env_reg_deco g reg) n = Some f \<or> (f \<in> set fs \<and> fn_name f = n)"
    by (rule Cons.IH)
  then show ?case by (auto simp: snd_env_reg_deco split: if_splits)
qed

lemma distinct_names: "distinct (map fn_name defined_functions)"
  unfolding names by simp

text \<open>
  Claim C8. Subscripting the registry with a name it does not hold raises \<open>KeyError\<close>
  (the name-not-found condition), for instance with \<open>not_a_shape\<close>; subscripting it
  with the declared name of any defined envelope returns that very function object;
  and whatever the registry holds under a name is a defined envelope with that name.
\<close>

theorem registry_lookup:
  "(envelopes n = None \<longrightarrow> dict_getitem envelopes n = Inl (KeyError n))
   \<and> (f \<in> set defined_functions \<longrightarrow> dict_getitem envelopes (fn_name f) = Inr f)
   \<and> (envelopes m = Some g \<longrightarrow> fn_name g = m \<and> g \<in> set defined_functions)
   \<and> dict_getitem envelopes ''not_a_shape'' = Inl (KeyError ''not_a_shape'')"
proof (intro conjI impI)
  show "dict_getitem envelopes n = Inl (KeyError n)" if "envelopes n = None"
    using that by (simp add: dict_getitem_def)
  show "dict_getitem envelopes (fn_name f) = Inr f" if "f \<in> set defined_functions"
    using fold_reg_in [OF distinct_names that, of Map.empty]
    by (simp add: dict_getitem_def envelopes_def)
  show "fn_name g = m" "g \<in> set defined_functions" if "envelopes m = Some g"
    using fold_reg_dom [of defined_functions Map.empty m g] that
    by (simp_all add: envelopes_def)
  have "''not_a_shape'' \<notin> fn_name ` set defined_functions"
    unfolding image_set names by simp
  then show "dict_getitem envelopes ''not_a_shape'' = Inl (KeyError ''not_a_shape'')"
    by (simp add: dict_getitem_def envelopes_def fold_reg_notin)
qed

theorem registry_lookup_witness:
  "envelopes ''not_a_shape'' = None
   \<and> dict_getitem envelopes ''not_a_shape'' = Inl (KeyError ''not_a_shape'')
   \<and> \<lparr>fn_name = ''pwc'', fn_call = unchanged pwc\<rparr> \<in> set defined_functions
   \<and> dict_getitem envelopes ''pwc'' = Inr \<lparr>fn_name = ''pwc'', fn_call = unchanged pwc\<rparr>
   \<and> envelopes ''pwc'' = Some \<lparr>fn_name = ''pwc'', fn_call = unchanged pwc\<rparr>"
proof -
  let ?pwc = "\<lparr>fn_name = ''pwc'', fn_call = unchanged pwc\<rparr>"
  have none: "envelopes ''not_a_shape'' = None"
  proof -
    have "''not_a_shape'' \<notin> fn_name ` set defined_functions"
      unfolding image_set names by simp
    then show ?thesis by (simp add: envelopes_def fold_reg_notin)
  qed
  have mem: "?pwc \<in> set defined_functions"
    by (simp add: defined_functions_def)
  have some: "envelopes ''pwc'' = Some ?pwc"
    using fold_reg_in [OF distinct_names mem, of Map.empty] by (simp add: envelopes_def)
  show ?thesis
    using registry_lookup [of "''not_a_shape''" ?pwc "''pwc''" ?pwc] none mem some by simp
qed

section \<open>The placeholder \<open>pwc\<close>\<close>

text \<open>
  Claim C9. For every time vector and every parameter set, \<open>pwc\<close> returns the parameter
  set itself and not a vector aligned with \<open>t\<close>: called with three time points and an
  empty parameter set it returns the empty parameter set, whose size is not three.
\<close>

theorem pwc_returns_params:
  "pwc t params = Inr (Params params)
   \<and> pwc [0, 1, 2] Map.empty = Inr (Params Map.empty)
   \<and> card (dom (Map.empty :: params)) \<noteq> length [0, 1, 2 :: real]"
  by (simp add: pwc_def)

section \<open>\<open>flattop\<close>\<close>

text \<open>
  \<open>flattop\<close> puts the float \<open>1e-9\<close> where \<open>flattop_risefall\<close> expects an object with
  \<open>get_value\<close>, so the call raises once \<open>t_up\<close> and \<open>t_down\<close> have been read.
\<close>

lemma flattop_raises:
  assumes "params ''t_up'' = Some (PyQty a)" "q_value a = Scalar x"
      and "params ''t_down'' = Some (PyQty b)" "q_value b = Scalar y"
  shows "fst (flattop t params) = Inl AttributeError"
  using assms
  by (simp add: flattop_def flattop_risefall_def float_param_def dict_getitem_def ebind_def
       get_value_def scalar_def tf_cast_def Let_def)

text \<open>
  Claim C2 says that \<open>flattop\<close> succeeds whenever \<open>t_up\<close> and \<open>t_down\<close> are present and
  returns what \<open>flattop_risefall\<close> returns for a rise time of \<open>1e-9\<close>. On the parameter
  set \<open>{t_up: Qty(1), t_down: Qty(2)}\<close> and \<open>t = [0]\<close> the call ends in
  \<open>AttributeError\<close>, the dictionary now holding the float under \<open>risefall\<close>.
\<close>

theorem flattop_attribute_error:
  "flattop [0] flattop_example =
     (Inl AttributeError, flattop_example(''risefall'' \<mapsto> PyFloat (1 / 10 ^ 9)))"
  by (simp add: flattop_def flattop_risefall_def float_param_def dict_getitem_def ebind_def
       get_value_def scalar_def tf_cast_def Let_def flattop_example_def Qty_def)

section \<open>What a call does to the caller's parameter set\<close>

text \<open>
  Claim C7. Every registered envelope other than \<open>flattop\<close>, \<open>gaussian\<close> and \<open>drag\<close>
  leaves the caller's parameter set as it was. \<open>flattop\<close> changes or adds no entry but
  \<open>risefall\<close>; \<open>gaussian\<close> and \<open>drag\<close> change or add no entry but \<open>sigma\<close>.
\<close>

theorem params_frame:
  "(f \<in> set defined_functions \<and> fn_name f \<notin> {''flattop'', ''gaussian'', ''drag''}
      \<longrightarrow> snd (fn_call f t params) = params)
   \<and> (k \<noteq> ''risefall'' \<longrightarrow> snd (flattop t params) k = params k)
   \<and> (k' \<noteq> ''sigma'' \<longrightarrow> snd (gaussian t params) k' = params k'
                            \<and> snd (drag t params) k' = params k')"
proof (intro conjI impI)
  assume "f \<in> set defined_functions \<and> fn_name f \<notin> {''flattop'', ''gaussian'', ''drag''}"
  then show "snd (fn_call f t params) = params"
    by (auto simp: defined_functions_def unchanged_def)
next
  assume "k \<noteq> ''risefall''"
  then show "snd (flattop t params) k = params k"
    by (simp add: flattop_def Let_def)
next
  assume "k' \<noteq> ''sigma''"
  then show "snd (gaussian t params) k' = params k'"
    by (simp add: gaussian_def Let_def split: sum.split)
next
  assume "k' \<noteq> ''sigma''"
  then show "snd (drag t params) k' = params k'"
    by (simp add: drag_def Let_def split: sum.split)
qed

theorem params_frame_witness:
  "\<lparr>fn_name = ''pwc'', fn_call = unchanged pwc\<rparr> \<in> set defined_functions
   \<and> ''pwc'' \<notin> {''flattop'', ''gaussian'', ''drag''}
   \<and> snd (unchanged pwc [0] flattop_example) = flattop_example
   \<and> ''t_up'' \<noteq> ''risefall''
   \<and> snd (flattop [0] flattop_example) ''t_up'' = flattop_example ''t_up''
   \<and> ''t_final'' \<noteq> ''sigma''
   \<and> snd (gaussian [0] (gauss_example 10 2)) ''t_final'' = gauss_example 10 2 ''t_final''
   \<and> snd (drag [0] (gauss_example 10 2)) ''t_final'' = gauss_example 10 2 ''t_final''"
proof -
  have mem: "\<lparr>fn_name = ''pwc'', fn_call = unchanged pwc\<rparr> \<in> set defined_functions"
    by (simp add: defined_functions_def)
  show ?thesis
    using params_frame [of "\<lparr>fn_name = ''pwc'', fn_call = unchanged pwc\<rparr>" "[0]"
            flattop_example "''t_up''" "''t_final''"]
          params_frame [of "\<lparr>fn_name = ''pwc'', fn_call = unchanged pwc\<rparr>" "[0]"
            "gauss_example 10 2" "''t_up''" "''t_final''"] mem
    by simp
qed

section \<open>\<open>gaussian\<close> and \<open>drag\<close> delegate\<close>

lemma float_param_upd_same:
  "float_param (params(k \<mapsto> PyQty s)) k = scalar (q_value s)"
  by (simp add: float_param_def dict_getitem_def ebind_def get_value_def tf_cast_def)

lemma float_param_upd_other:
  "k \<noteq> k' \<Longrightarrow> float_param (params(k' \<mapsto> v)) k = float_param params k"
  by (simp add: float_param_def dict_getitem_def)

lemma derived_sigma_Qty:
  "params ''t_final'' = Some (PyQty q) \<Longrightarrow>
     derived_sigma params =
       Inr (Qty (tdiv (q_value q) 4) (tdiv (q_value q) 8) (tdiv (q_value q) 2) (q_unit q))"
  by (simp add: derived_sigma_def dict_getitem_def ebind_def get_value_def get_unit_def)

text \<open>
  Claim C1. For every time vector and every parameter set whose \<open>t_final\<close> is a
  quantity, \<open>gaussian\<close> returns what \<open>gaussian_sigma\<close> returns on the parameter set
  extended by \<open>sigma = t_final/4\<close>, and \<open>drag\<close> returns what \<open>drag_sigma\<close> returns
  there. This holds for the entry that the code builds (bounds \<open>t_final/8\<close> and
  \<open>t_final/2\<close>, the unit of \<open>t_final\<close>) and for any quantity \<open>s\<close> whose value is
  \<open>t_final/4\<close>.
\<close>

theorem gaussian_drag_delegate:
  assumes "params ''t_final'' = Some (PyQty q)"
      and "q_value s = tdiv (q_value q) 4"
  shows "gaussian t params =
           (gaussian_sigma t (params(''sigma'' \<mapsto>
              Qty (tdiv (q_value q) 4) (tdiv (q_value q) 8) (tdiv (q_value q) 2) (q_unit q))),
            params(''sigma'' \<mapsto>
              Qty (tdiv (q_value q) 4) (tdiv (q_value q) 8) (tdiv (q_value q) 2) (q_unit q)))
         \<and> fst (gaussian t params) = gaussian_sigma t (params(''sigma'' \<mapsto> PyQty s))
         \<and> drag t params =
           (drag_sigma t (params(''sigma'' \<mapsto>
              Qty (tdiv (q_value q) 4) (tdiv (q_value q) 8) (tdiv (q_value q) 2) (q_unit q))),
            params(''sigma'' \<mapsto>
              Qty (tdiv (q_value q) 4) (tdiv (q_value q) 8) (tdiv (q_value q) 2) (q_unit q)))
         \<and> fst (drag t params) = drag_sigma t (params(''sigma'' \<mapsto> PyQty s))"
proof -
  let ?s = "Qty (tdiv (q_value q) 4) (tdiv (q_value q) 8) (tdiv (q_value q) 2) (q_unit q)"
  have ds: "derived_sigma params = Inr ?s"
    using assms(1) by (rule derived_sigma_Qty)
  have g: "gaussian t params = (gaussian_sigma t (params(''sigma'' \<mapsto> ?s)), params(''sigma'' \<mapsto> ?s))"
    by (simp add: gaussian_def ds Let_def)
  have d: "drag t params = (drag_sigma t (params(''sigma'' \<mapsto> ?s)), params(''sigma'' \<mapsto> ?s))"
    by (simp add: drag_def ds Let_def)
  have sg: "float_param (params(''sigma'' \<mapsto> ?s)) ''sigma''
          = float_param (params(''sigma'' \<mapsto> PyQty s)) ''sigma''"
    by (simp add: Qty_def float_param_upd_same assms(2))
  have tf: "float_param (params(''sigma'' \<mapsto> ?s)) ''t_final''
          = float_param (params(''sigma'' \<mapsto> PyQty s)) ''t_final''"
    by (simp add: float_param_upd_other)
  have g': "gaussian_sigma t (params(''sigma'' \<mapsto> ?s)) = gaussian_sigma t (params(''sigma'' \<mapsto> PyQty s))"
    unfolding gaussian_sigma_def sg tf ..
  have d': "drag_sigma t (params(''sigma'' \<mapsto> ?s)) = drag_sigma t (params(''sigma'' \<mapsto> PyQty s))"
    unfolding drag_sigma_def sg tf ..
  show ?thesis
    using g d g' d' by simp
qed

theorem gaussian_drag_delegate_witness:
  "gauss_example 10 2 ''t_final''
     = Some (PyQty \<lparr>q_value = Scalar 10, q_min = Scalar 0, q_max = Scalar 100, q_unit = ''s''\<rparr>)
   \<and> fst (gaussian [0, 5, 10] (gauss_example 10 2))
       = gaussian_sigma [0, 5, 10] ((gauss_example 10 2)(''sigma'' \<mapsto>
           PyQty \<lparr>q_value = Scalar (10 / 4), q_min = Scalar 1, q_max = Scalar 3, q_unit = ''ns''\<rparr>))
   \<and> fst (drag [0, 5, 10] (gauss_example 10 2))
       = drag_sigma [0, 5, 10] ((gauss_example 10 2)(''sigma'' \<mapsto>
           PyQty \<lparr>q_value = Scalar (10 / 4), q_min = Scalar 1, q_max = Scalar 3, q_unit = ''ns''\<rparr>))"
proof -
  let ?q = "\<lparr>q_value = Scalar 10, q_min = Scalar 0, q_max = Scalar 100, q_unit = ''s''\<rparr>"
  let ?s = "\<lparr>q_value = Scalar (10 / 4), q_min = Scalar 1, q_max = Scalar 3, q_unit = ''ns''\<rparr>"
  have h1: "gauss_example 10 2 ''t_final'' = Some (PyQty ?q)"
    by (simp add: gauss_example_def Qty_def)
  have h2: "q_value ?s = tdiv (q_value ?q) 4"
    by (simp add: tdiv_def)
  from gaussian_drag_delegate [of "gauss_example 10 2" ?q ?s "[0, 5, 10]", OF h1 h2]
  have "fst (gaussian [0, 5, 10] (gauss_example 10 2))
          = gaussian_sigma [0, 5, 10] ((gauss_example 10 2)(''sigma'' \<mapsto> PyQty ?s))"
    and "fst (drag [0, 5, 10] (gauss_example 10 2))
          = drag_sigma [0, 5, 10] ((gauss_example 10 2)(''sigma'' \<mapsto> PyQty ?s))"
    by blast+
  with h1 show ?thesis by blast
qed

section \<open>\<open>fourier_sin\<close>\<close>

lemma column_param_Array:
  "params k = Some (PyQty q) \<Longrightarrow> q_value q = Array xs \<Longrightarrow> column_param params k = Inr xs"
  by (simp add: column_param_def dict_getitem_def ebind_def get_value_def shape0_def
       tf_reshape_col_def tf_cast_def)

lemma sum_list_zip_nth:
  fixes h :: "real \<Rightarrow> real \<Rightarrow> real"
  shows "length xs = length ys \<Longrightarrow>
     sum_list (map (\<lambda>(a, f). h a f) (zip xs ys)) = (\<Sum>i<length xs. h (xs ! i) (ys ! i))"
proof (induction xs ys rule: list_induct2)
  case Nil
  then show ?case by simp
next
  case (Cons x xs y ys)
  have "(\<Sum>i<Suc (length xs). h ((x # xs) ! i) ((y # ys) ! i))
          = h x y + (\<Sum>i<length xs. h (xs ! i) (ys ! i))"
    by (subst sum.lessThan_Suc_shift) simp
  with Cons show ?case by simp
qed

lemma column_param_fourier_example:
  "column_param (fourier_example fs) ''amps'' = Inr [1]"
  "column_param (fourier_example fs) ''freqs'' = Inr fs"
  by (simp_all add: column_param_def dict_getitem_def ebind_def get_value_def shape0_def
       tf_reshape_col_def tf_cast_def fourier_example_def Qty_def)

text \<open>
  Claim C3 gives \<open>[0, 1, 0]\<close> for \<open>amps = [1]\<close>, \<open>freqs = [0]\<close> over
  \<open>t = [0, pi/2, pi]\<close>. With the frequency \<open>0\<close> every term is \<open>sin 0\<close>: the code returns
  \<open>[0, 0, 0]\<close>, whose middle entry is not \<open>1\<close>.
\<close>

theorem fourier_sin_zero_frequency:
  "fourier_sin [0, pi / 2, pi] (fourier_example [0]) = Inr (Vector [Some 0, Some 0, Some 0])
   \<and> fourier_sin [0, pi / 2, pi] (fourier_example [0]) \<noteq> Inr (Vector [Some 0, Some 1, Some 0])"
  by (simp add: fourier_sin_def column_param_fourier_example broadcast_rows_def ebind_def)

text \<open>
  Claim C3, amended. For \<open>amps\<close> and \<open>freqs\<close> of equal length, \<open>fourier_sin\<close> returns a
  vector as long as \<open>t\<close> whose entry at the time \<open>e\<close> is the sum over the components
  \<open>i\<close> of \<open>amps[i] * sin(freqs[i] * e)\<close>. With \<open>amps = [1]\<close> over \<open>t = [0, pi/2, pi]\<close> the
  result is \<open>[0, 0, 0]\<close> for \<open>freqs = [0]\<close> and \<open>[0, 1, 0]\<close> for \<open>freqs = [1]\<close>.
\<close>

theorem fourier_sin_sum:
  assumes "params ''amps'' = Some (PyQty qa)" "q_value qa = Array amps"
      and "params ''freqs'' = Some (PyQty qf)" "q_value qf = Array freqs"
      and "length amps = length freqs"
  shows "(\<exists>v. fourier_sin t params = Inr (Vector v)
            \<and> length v = length t
            \<and> v = map (\<lambda>e. Some (\<Sum>i<length amps. amps ! i * sin (freqs ! i * e))) t)
         \<and> fourier_sin [0, pi / 2, pi] (fourier_example [0]) = Inr (Vector [Some 0, Some 0, Some 0])
         \<and> fourier_sin [0, pi / 2, pi] (fourier_example [1]) = Inr (Vector [Some 0, Some 1, Some 0])"
proof -
  have ca: "column_param params ''amps'' = Inr amps"
    using assms(1,2) by (rule column_param_Array)
  have cf: "column_param params ''freqs'' = Inr freqs"
    using assms(3,4) by (rule column_param_Array)
  have "fourier_sin t params =
          Inr (Vector (map (\<lambda>e. Some (sum_list (map (\<lambda>(a, f). a * sin (f * e)) (zip amps freqs)))) t))"
    by (simp add: fourier_sin_def ca cf broadcast_rows_def assms(5) ebind_def)
  then have "\<exists>v. fourier_sin t params = Inr (Vector v)
            \<and> length v = length t
            \<and> v = map (\<lambda>e. Some (\<Sum>i<length amps. amps ! i * sin (freqs ! i * e))) t"
    by (simp add: sum_list_zip_nth [OF assms(5)])
  moreover
  have "fourier_sin [0, pi / 2, pi] (fourier_example [0]) = Inr (Vector [Some 0, Some 0, Some 0])"
    by (simp add: fourier_sin_def column_param_fourier_example broadcast_rows_def ebind_def)
  moreover
  have "fourier_sin [0, pi / 2, pi] (fourier_example [1]) = Inr (Vector [Some 0, Some 1, Some 0])"
    by (simp add: fourier_sin_def column_param_fourier_example broadcast_rows_def ebind_def)
  ultimately show ?thesis by blast
qed

theorem fourier_sin_sum_witness:
  "fourier_example [1] ''amps''
     = Some (PyQty \<lparr>q_value = Array [1], q_min = Array [0], q_max = Array [2], q_unit = ''V''\<rparr>)
   \<and> fourier_example [1] ''freqs''
     = Some (PyQty \<lparr>q_value = Array [1], q_min = Array [0], q_max = Array [2], q_unit = ''Hz''\<rparr>)
   \<and> length [1 :: real] = length [1 :: real]
   \<and> fourier_sin [0, pi / 2, pi] (fourier_example [1])
       = Inr (Vector (map (\<lambda>e. Some (\<Sum>i<length [1 :: real]. [1] ! i * sin ([1] ! i * e)))
                          [0, pi / 2, pi]))"
proof -
  let ?qa = "\<lparr>q_value = Array [1], q_min = Array [0], q_max = Array [2], q_unit = ''V''\<rparr>"
  let ?qf = "\<lparr>q_value = Array [1], q_min = Array [0], q_max = Array [2], q_unit = ''Hz''\<rparr>"
  have h1: "fourier_example [1] ''amps'' = Some (PyQty ?qa)"
    by (simp add: fourier_example_def Qty_def)
  have h2: "q_value ?qa = Array [1]" by simp
  have h3: "fourier_example [1] ''freqs'' = Some (PyQty ?qf)"
    by (simp add: fourier_example_def Qty_def)
  have h4: "q_value ?qf = Array [1]" by simp
  have h5: "length [1 :: real] = length [1 :: real]" by simp
  from fourier_sin_sum [OF h1 h2 h3 h4 h5, of "[0, pi / 2, pi]"]
  have "fourier_sin [0, pi / 2, pi] (fourier_example [1])
       = Inr (Vector (map (\<lambda>e. Some (\<Sum>i<length [1 :: real]. [1] ! i * sin ([1] ! i * e)))
                          [0, pi / 2, pi]))"
    by blast
  with h1 h3 show ?thesis by simp
qed

section \<open>\<open>flattop_variant\<close>\<close>

lemma flattop_variant_loop_step:
  "flattop_variant_loop t_up t_down ramp sigma ((i, e) # rest) val =
     flattop_variant_loop t_up t_down ramp sigma rest
       (val[i := flattop_variant_entry t_up t_down ramp sigma e])"
  by (simp add: flattop_variant_entry_def)

lemma flattop_variant_loop_enumerate:
  "n + length xs \<le> length val \<Longrightarrow>
     flattop_variant_loop t_up t_down ramp sigma (enumerate n xs) val =
       take n val @ map (flattop_variant_entry t_up t_down ramp sigma) xs
         @ drop (n + length xs) val"
proof (induction xs arbitrary: n val)
  case Nil
  then show ?case by simp
next
  case (Cons e xs)
  let ?x = "flattop_variant_entry t_up t_down ramp sigma e"
  from Cons.prems have n: "n < length val" and len: "Suc n + length xs \<le> length (val[n := ?x])"
    by simp_all
  have "flattop_variant_loop t_up t_down ramp sigma (enumerate n (e # xs)) val =
          flattop_variant_loop t_up t_down ramp sigma (enumerate (Suc n) xs) (val[n := ?x])"
    by (simp only: enumerate_simps flattop_variant_loop_step)
  also have "\<dots> = take (Suc n) (val[n := ?x])
                     @ map (flattop_variant_entry t_up t_down ramp sigma) xs
                     @ drop (Suc n + length xs) (val[n := ?x])"
    using len by (rule Cons.IH)
  also have "take (Suc n) (val[n := ?x]) = take n val @ [?x]"
    using n by (simp add: take_Suc_conv_app_nth)
  also have "drop (Suc n + length xs) (val[n := ?x]) = drop (n + length (e # xs)) val"
    by simp
  finally show ?case by simp
qed

lemma flattop_variant_floats:
  assumes "params ''t_up'' = Some (PyFloat t_up)"
      and "params ''t_down'' = Some (PyFloat t_down)"
      and "params ''ramp'' = Some (PyFloat ramp0)"
  shows "flattop_variant t params =
     (let ramp = (if ramp0 > (t_down - t_up) / 2 then (t_down - t_up) / 2 else ramp0);
          sigma = sqrt 2 * ramp * 0.2
      in Inr (Vector (map (flattop_variant_entry t_up t_down ramp sigma) t)))"
  using assms
  by (simp add: flattop_variant_def dict_getitem_def ebind_def py_float_def Let_def
        flattop_variant_loop_enumerate)

text \<open>
  Claim C6. For plain-float parameters with \<open>t_up < t_down\<close> and \<open>ramp = 0\<close>, the result
  of \<open>flattop_variant\<close> is a vector as long as \<open>t\<close> that holds exactly \<open>1\<close> at every
  index whose time lies strictly between \<open>t_up\<close> and \<open>t_down\<close>, and exactly \<open>0\<close> at
  every index whose time lies strictly outside \<open>[t_up, t_down]\<close>.
\<close>

theorem flattop_variant_ramp_zero:
  assumes "params ''t_up'' = Some (PyFloat t_up)"
      and "params ''t_down'' = Some (PyFloat t_down)"
      and "params ''ramp'' = Some (PyFloat 0)"
      and "t_up < t_down"
  shows "\<exists>v. flattop_variant t params = Inr (Vector v)
            \<and> length v = length t
            \<and> (\<forall>i<length t.
                  (t_up < t ! i \<and> t ! i < t_down \<longrightarrow> v ! i = Some 1)
                \<and> (t ! i < t_up \<or> t_down < t ! i \<longrightarrow> v ! i = Some 0))"
proof -
  have "flattop_variant t params = Inr (Vector (map (flattop_variant_entry t_up t_down 0 0) t))"
    using assms(4) by (simp add: flattop_variant_floats [OF assms(1,2,3)])
  moreover have "flattop_variant_entry t_up t_down 0 0 e = Some 1" if "t_up < e" "e < t_down" for e
    using that by (simp add: flattop_variant_entry_def)
  moreover have "flattop_variant_entry t_up t_down 0 0 e = Some 0" if "e < t_up \<or> t_down < e" for e
    using that assms(4) by (auto simp: flattop_variant_entry_def)
  ultimately show ?thesis by simp
qed

theorem flattop_variant_ramp_zero_witness:
  "variant_example ''t_up'' = Some (PyFloat 1)
   \<and> variant_example ''t_down'' = Some (PyFloat 3)
   \<and> variant_example ''ramp'' = Some (PyFloat 0)
   \<and> (1::real) < 3
   \<and> flattop_variant [0, 2, 4] variant_example = Inr (Vector [Some 0, Some 1, Some 0])"
proof -
  have h: "variant_example ''t_up'' = Some (PyFloat 1)"
          "variant_example ''t_down'' = Some (PyFloat 3)"
          "variant_example ''ramp'' = Some (PyFloat 0)" "(1::real) < 3"
    by (simp_all add: variant_example_def)
  from flattop_variant_ramp_zero [OF h, of "[0, 2, 4]"]
  obtain v where v: "flattop_variant [0, 2, 4] variant_example = Inr (Vector v)"
      and len: "length v = length [0, 2, 4 :: real]"
      and ent: "\<forall>i<length [0, 2, 4 :: real].
                  (1 < [0, 2, 4 :: real] ! i \<and> [0, 2, 4 :: real] ! i < 3 \<longrightarrow> v ! i = Some 1)
                \<and> ([0, 2, 4 :: real] ! i < 1 \<or> 3 < [0, 2, 4 :: real] ! i \<longrightarrow> v ! i = Some 0)"
    by blast
  have e0: "v ! 0 = Some 0" using ent [rule_format, of 0] by simp
  have e1: "v ! 1 = Some 1" using ent [rule_format, of 1] by simp
  have e2: "v ! 2 = Some 0" using ent [rule_format, of 2] by simp
  have "v = [v ! 0, v ! 1, v ! 2]"
    using len by (auto simp: list_eq_iff_nth_eq less_Suc_eq numeral_3_eq_3 numeral_2_eq_2)
  with v h e0 e1 e2 show ?thesis by simp
qed


section \<open>\<open>gaussian_der\<close>\<close>

lemma float_param_Scalar:
  "params k = Some (PyQty q) \<Longrightarrow> q_value q = Scalar x \<Longrightarrow> float_param params k = Inr x"
  by (simp add: float_param_def dict_getitem_def ebind_def get_value_def tf_cast_def scalar_def)

lemma float_param_gauss_example:
  "float_param (gauss_example T S) ''t_final'' = Inr T"
  "float_param (gauss_example T S) ''sigma'' = Inr S"
  by (simp_all add: gauss_example_def Qty_def float_param_def dict_getitem_def ebind_def
        get_value_def tf_cast_def scalar_def)

text \<open>
  Whenever \<open>t_final\<close> and \<open>sigma\<close> are there as scalar quantities, \<open>gaussian_der\<close> gets as
  far as \<open>tf.sqrt(8)\<close> and raises, while \<open>gaussian_der_nonorm\<close> returns its vector.
\<close>

lemma gaussian_der_raises:
  assumes "params ''t_final'' = Some (PyQty qt)" "q_value qt = Scalar T"
      and "params ''sigma'' = Some (PyQty qs)" "q_value qs = Scalar S"
  shows "gaussian_der t params = Inl InvalidArgumentError"
proof -
  have a: "float_param params ''t_final'' = Inr T"
    using assms(1,2) by (rule float_param_Scalar)
  have b: "float_param params ''sigma'' = Inr S"
    using assms(3,4) by (rule float_param_Scalar)
  show ?thesis
    by (simp add: gaussian_der_def a b ebind_def tf_sqrt_int_def Let_def)
qed

lemma gaussian_der_nonorm_returns:
  assumes "params ''t_final'' = Some (PyQty qt)" "q_value qt = Scalar T"
      and "params ''sigma'' = Some (PyQty qs)" "q_value qs = Scalar S"
  shows "gaussian_der_nonorm t params =
           Inr (Vector (map (\<lambda>e. do {
                  q \<leftarrow> fdiv (- ((e - T / 2) ^ 2)) (2 * S ^ 2);
                  fdiv (exp q * (e - T / 2)) (S ^ 2) }) t))"
proof -
  have a: "float_param params ''t_final'' = Inr T"
    using assms(1,2) by (rule float_param_Scalar)
  have b: "float_param params ''sigma'' = Inr S"
    using assms(3,4) by (rule float_param_Scalar)
  show ?thesis
    by (simp add: gaussian_der_nonorm_def a b ebind_def Let_def)
qed

text \<open>
  Claim C5 says that \<open>gaussian_der\<close> returns \<open>gaussian_der_nonorm\<close> divided entry by entry
  by the normalisation constant of \<open>gaussian_sigma\<close>. For \<open>t_final = 10\<close>, \<open>sigma = 2\<close> and
  the time point \<open>5\<close>, \<open>gaussian_der_nonorm\<close> returns the vector \<open>[0]\<close> and \<open>gaussian_der\<close>
  returns nothing: it raises at \<open>tf.sqrt(8)\<close>.
\<close>

theorem gaussian_der_invalid_argument:
  "gaussian_der [5] (gauss_example 10 2) = Inl InvalidArgumentError
   \<and> gaussian_der_nonorm [5] (gauss_example 10 2) = Inr (Vector [Some 0])"
  by (simp add: gaussian_der_def gaussian_der_nonorm_def float_param_gauss_example ebind_def
        tf_sqrt_int_def Let_def fdiv_def)

end
